theory Spec2Isabelle
  imports Main "HOL-Library.Word"
begin

section \<open>The storage package of kvstorage-srv\<close>

text \<open>
  A shallow embedding of the package \<open>storage\<close>: an in-memory table from string keys to
  items, each item carrying an absolute expiration instant in Unix nanoseconds.

  \<^item> \<open>int64\<close> and \<open>time.Duration\<close> are 64-bit words; \<open>+\<close> wraps, and the comparisons of
    the source are the signed ones (\<open><s\<close>).
  \<^item> Every reading of the clock, \<open>time.Now().UnixNano()\<close>, is the argument \<open>now\<close> of the
    operation that reads it; \<open>time.Now().Add(d).UnixNano()\<close> is \<open>now + d\<close>.
  \<^item> A value of type \<open>interface{}\<close> is an \<open>'v option\<close>, \<open>None\<close> being the nil interface.
  \<^item> A Go map is a map \<open>string \<rightharpoonup> 'v Item\<close>. A \<open>for k, v := range m\<close> loop is a
    recursion over the list of keys in the order the runtime reaches them; that
    order is an argument of the operation, constrained by \<open>range_order\<close>.
  \<^item> The mutex is left out: every operation runs as one atomic step on the state.
  \<^item> An \<open>error\<close> is its message; a nil error is \<open>None\<close>.
\<close>

type_synonym int64 = "64 word"
type_synonym duration = "64 word"
type_synonym error = string

record 'v Item =
  Object :: "'v option"
  Expiration :: int64

type_synonym 'v table = "string \<rightharpoonup> 'v Item"

definition Expired :: "'v Item \<Rightarrow> int64 \<Rightarrow> bool" where
  "Expired item now =
     (if Expiration item = 0 then False else Expiration item <s now)"

definition NoExpiration :: duration where
  "NoExpiration = - 1"

definition DefaultExpiration :: duration where
  "DefaultExpiration = 0"

record janitor =
  Interval :: duration

record 'v Storage =
  filePath :: string
  defaultExpiration :: duration
  items :: "'v table"
  janitor :: "janitor option"

text \<open>
  The keys of a map in one of the orders a \<open>range\<close> loop may reach them: every key
  once. A loop looks the value of each key up when it reaches it, and yields nothing for
  a key that is no longer there.
\<close>

definition range_order :: "'v table \<Rightarrow> string list \<Rightarrow> bool" where
  "range_order m ks \<longleftrightarrow> distinct ks \<and> set ks = dom m"

subsection \<open>Writing\<close>

definition Set :: "'v Storage \<Rightarrow> string \<Rightarrow> 'v option \<Rightarrow> duration \<Rightarrow> int64 \<Rightarrow> 'v Storage" where
  "Set s key val dur now =
     (let dur = (if dur = DefaultExpiration then defaultExpiration s else dur);
          exp = (if 0 <s dur then now + dur else 0)
      in s\<lparr>items := (items s)(key \<mapsto> \<lparr>Object = val, Expiration = exp\<rparr>)\<rparr>)"

text \<open>The unexported \<open>set\<close>, which does not take the lock.\<close>

definition set_unlocked :: "'v Storage \<Rightarrow> string \<Rightarrow> 'v option \<Rightarrow> duration \<Rightarrow> int64 \<Rightarrow> 'v Storage" where
  "set_unlocked s key val dur now =
     (let dur = (if dur = DefaultExpiration then defaultExpiration s else dur);
          exp = (if 0 <s dur then now + dur else 0)
      in s\<lparr>items := (items s)(key \<mapsto> \<lparr>Object = val, Expiration = exp\<rparr>)\<rparr>)"

definition Add :: "'v Storage \<Rightarrow> string \<Rightarrow> 'v option \<Rightarrow> duration \<Rightarrow> int64 \<Rightarrow> 'v Storage \<times> error option" where
  "Add s key val dur now =
     (case items s key of
        Some _ \<Rightarrow> (s, Some (''item '' @ key @ '' already exists''))
      | None \<Rightarrow> (set_unlocked s key val dur now, None))"

definition Delete :: "'v Storage \<Rightarrow> string \<Rightarrow> 'v Storage \<times> bool" where
  "Delete s key =
     (case items s key of
        Some _ \<Rightarrow> (s\<lparr>items := (items s)(key := None)\<rparr>, True)
      | None \<Rightarrow> (s, False))"

subsection \<open>Reading\<close>

definition Get :: "'v Storage \<Rightarrow> string \<Rightarrow> int64 \<Rightarrow> 'v option \<times> bool" where
  "Get s key now =
     (case items s key of
        None \<Rightarrow> (None, False)
      | Some item \<Rightarrow>
          if 0 <s Expiration item \<and> Expiration item <s now then (None, False)
          else (Object item, True))"

fun Items_loop :: "int64 \<Rightarrow> 'v table \<Rightarrow> string list \<Rightarrow> 'v table \<Rightarrow> 'v table" where
  "Items_loop now src [] m = m"
| "Items_loop now src (k # ks) m =
     (case src k of
        None \<Rightarrow> Items_loop now src ks m
      | Some v \<Rightarrow>
          if 0 <s Expiration v \<and> Expiration v <s now then Items_loop now src ks m
          else Items_loop now src ks (m(k \<mapsto> v)))"

definition Items :: "'v Storage \<Rightarrow> int64 \<Rightarrow> string list \<Rightarrow> 'v table" where
  "Items s now ks = Items_loop now (items s) ks Map.empty"

definition ItemCount :: "'v Storage \<Rightarrow> nat" where
  "ItemCount s = card (dom (items s))"

subsection \<open>Sweeping\<close>

fun DeleteExpired_loop :: "int64 \<Rightarrow> string list \<Rightarrow> 'v table \<Rightarrow> 'v table" where
  "DeleteExpired_loop now [] m = m"
| "DeleteExpired_loop now (k # ks) m =
     (case m k of
        None \<Rightarrow> DeleteExpired_loop now ks m
      | Some v \<Rightarrow>
          if 0 <s Expiration v \<and> Expiration v <s now
          then DeleteExpired_loop now ks (m(k := None))
          else DeleteExpired_loop now ks m)"

definition DeleteExpired :: "'v Storage \<Rightarrow> int64 \<Rightarrow> string list \<Rightarrow> 'v Storage" where
  "DeleteExpired s now ks = s\<lparr>items := DeleteExpired_loop now ks (items s)\<rparr>"

subsection \<open>Construction\<close>

definition newStorage :: "duration \<Rightarrow> 'v table \<Rightarrow> 'v Storage" where
  "newStorage de m =
     (let de = (if de = 0 then NoExpiration else de)
      in \<lparr>filePath = [], defaultExpiration = de, items = m, janitor = None\<rparr>)"

text \<open>
  \<open>runJanitor\<close> records the janitor in the storage and starts its goroutine; only the
  record is modelled.
\<close>

definition runJanitor :: "'v Storage \<Rightarrow> duration \<Rightarrow> 'v Storage" where
  "runJanitor s interval = s\<lparr>janitor := Some \<lparr>Interval = interval\<rparr>\<rparr>"

definition newsWithJanitor :: "duration \<Rightarrow> duration \<Rightarrow> 'v table \<Rightarrow> 'v Storage" where
  "newsWithJanitor de ci m =
     (let s = newStorage de m in if 0 <s ci then runJanitor s ci else s)"

definition New :: "duration \<Rightarrow> duration \<Rightarrow> int \<Rightarrow> 'v Storage" where
  "New de cleanupInterval DBSize = newsWithJanitor de cleanupInterval Map.empty"

subsection \<open>Loading\<close>

text \<open>
  \<open>Load\<close> hands the reader to a gob decoder, which is not part of the package. The
  decoder is the argument \<open>Decode\<close>: from the reader it gives the contents of the local
  map \<open>items\<close> after the call (whatever was stored there, also when decoding failed)
  and the error. \<open>ks\<close> is the order in which the loop ranges over that local map.
\<close>

fun Load_loop :: "'v table \<Rightarrow> string list \<Rightarrow> 'v table \<Rightarrow> 'v table" where
  "Load_loop decoded [] m = m"
| "Load_loop decoded (k # ks) m =
     (case decoded k of
        None \<Rightarrow> Load_loop decoded ks m
      | Some v \<Rightarrow> Load_loop decoded ks (m(k \<mapsto> v)))"

definition Load ::
  "'v Storage \<Rightarrow> ('r \<Rightarrow> 'v table \<times> error option) \<Rightarrow> 'r \<Rightarrow> string list
    \<Rightarrow> 'v Storage \<times> error option" where
  "Load s Decode r ks =
     (case Decode r of
        (decoded, None) \<Rightarrow> (s\<lparr>items := Load_loop decoded ks (items s)\<rparr>, None)
      | (decoded, Some err) \<Rightarrow> (s, Some err))"

subsection \<open>Example states\<close>

text \<open>
  The scenario of the load-merge test: a storage that held \<open>a\<close> and \<open>b\<close> was saved, then
  \<open>c\<close> was added and \<open>a\<close> overwritten; \<open>decode_file\<close> is a decoder that reads the saved file.
\<close>

definition saved_ab :: "nat table" where
  "saved_ab =
     [''a'' \<mapsto> \<lparr>Object = Some 1, Expiration = 0\<rparr>, ''b'' \<mapsto> \<lparr>Object = Some 2, Expiration = 0\<rparr>]"

definition running_abc :: "nat Storage" where
  "running_abc =
     Set (Set (Set (Set (New 0 0 0) ''a'' (Some 1) 0 10) ''b'' (Some 2) 0 10) ''c'' (Some 3) 0 20)
       ''a'' (Some 4) 0 20"

definition decode_file :: "string \<Rightarrow> nat table \<times> error option" where
  "decode_file r =
     (if r = ''db.dat'' then (saved_ab, None) else (Map.empty, Some ''unexpected EOF''))"

text \<open>A storage whose only entry, set at instant 100 for 5 nanoseconds, expires after 105.\<close>

definition stale :: "nat Storage" where
  "stale = Set (New 0 0 0) ''k'' (Some 7) 5 100"

text \<open>
  A storage whose only entry was set, at an instant in 2026, for the longest duration
  there is: \<open>now + duration\<close> wraps around, and the stored expiration is negative.
\<close>

definition wrapped :: "nat Storage" where
  "wrapped = Set (New 0 0 0) ''k'' (Some 1) 9223372036854775807 1793404800000000000"

text \<open>
  A storage filled at instant 10 with an entry that expires after 50, one that expires
  after 200 and one that never expires.
\<close>

definition mixed :: "nat Storage" where
  "mixed =
     Set (Set (Set (New 0 0 0) ''dead'' (Some 1) 40 10) ''live'' (Some 2) 190 10)
       ''forever'' (Some 3) NoExpiration 10"

section \<open>Properties\<close>

subsection \<open>The loops\<close>

lemma Load_loop_lookup:
  "Load_loop decoded ks m k = (if k \<in> set ks \<and> decoded k \<noteq> None then decoded k else m k)"
  by (induction ks arbitrary: m) (auto split: option.splits)

lemma Items_loop_lookup:
  "Items_loop now src ks m k =
     (case (if k \<in> set ks then src k else None) of
        None \<Rightarrow> m k
      | Some v \<Rightarrow> if 0 <s Expiration v \<and> Expiration v <s now then m k else Some v)"
  by (induction ks arbitrary: m) (auto split: option.splits)

lemma DeleteExpired_loop_lookup:
  "DeleteExpired_loop now ks m k =
     (case m k of
        None \<Rightarrow> None
      | Some v \<Rightarrow>
          if k \<in> set ks \<and> 0 <s Expiration v \<and> Expiration v <s now then None else Some v)"
  by (induction ks arbitrary: m) (auto split: option.splits)

lemma range_order_finite: "range_order m ks \<Longrightarrow> finite (dom m)"
  unfolding range_order_def by (metis List.finite_set)

lemma Expired_nonneg:
  "0 \<le>s Expiration item \<Longrightarrow> Expired item now \<longleftrightarrow> 0 <s Expiration item \<and> Expiration item <s now"
  by (auto simp: Expired_def word_sless_eq)

lemma Items_lookup:
  assumes "range_order (items s) ks"
  shows "Items s now ks k =
     (case items s k of
        None \<Rightarrow> None
      | Some v \<Rightarrow> if 0 <s Expiration v \<and> Expiration v <s now then None else Some v)"
  using assms unfolding range_order_def Items_def Items_loop_lookup
  by (auto split: option.splits)

lemma DeleteExpired_lookup:
  assumes "range_order (items s) ks"
  shows "items (DeleteExpired s now ks) k =
     (case items s k of
        None \<Rightarrow> None
      | Some v \<Rightarrow> if 0 <s Expiration v \<and> Expiration v <s now then None else Some v)"
  using assms unfolding range_order_def DeleteExpired_def
  by (auto simp: DeleteExpired_loop_lookup split: option.splits)

lemma stale_items:
  "items stale = [''k'' \<mapsto> \<lparr>Object = Some 7, Expiration = 105\<rparr>]"
  by (simp add: stale_def Set_def New_def newsWithJanitor_def newStorage_def
      DefaultExpiration_def word_sless_alt)

lemma wrapped_items:
  "items wrapped = [''k'' \<mapsto> \<lparr>Object = Some 1, Expiration = 11016776836854775807\<rparr>]"
  by (simp add: wrapped_def Set_def New_def newsWithJanitor_def newStorage_def
      DefaultExpiration_def word_sless_alt)

lemma mixed_items:
  "items mixed =
     [''dead'' \<mapsto> \<lparr>Object = Some 1, Expiration = 50\<rparr>,
      ''live'' \<mapsto> \<lparr>Object = Some 2, Expiration = 200\<rparr>,
      ''forever'' \<mapsto> \<lparr>Object = Some 3, Expiration = 0\<rparr>]"
  by (simp add: mixed_def Set_def New_def newsWithJanitor_def newStorage_def
      DefaultExpiration_def NoExpiration_def word_sless_alt)

lemma mixed_nonneg: "\<forall>k v. items mixed k = Some v \<longrightarrow> 0 \<le>s Expiration v"
  by (auto simp: mixed_items word_sle_eq split: if_splits)

lemma mixed_range: "range_order (items mixed) [''live'', ''forever'', ''dead'']"
  by (auto simp: range_order_def mixed_items split: if_splits)

subsection \<open>Loading\<close>

text \<open>
  C9: when decoding fails, \<open>Load\<close> returns the decoder's error and the storage it was
  given, whatever the decoder had already put into the local map and whatever order
  the loop would have taken.
\<close>

theorem Load_decode_error:
  assumes "snd (Decode r) = Some err"
  shows "Load s Decode r ks = (s, Some err)"
  using assms by (cases "Decode r") (simp add: Load_def)

theorem Load_decode_error_witness:
  "snd ((\<lambda>r. if r = ''truncated''
            then ([''b'' \<mapsto> \<lparr>Object = Some (2::nat), Expiration = 0\<rparr>], Some ''unexpected EOF'')
            else (Map.empty, None)) ''truncated'')
     = Some ''unexpected EOF''
   \<and> Load (Set (New 0 0 0) ''a'' (Some 1) 0 100)
        (\<lambda>r. if r = ''truncated''
            then ([''b'' \<mapsto> \<lparr>Object = Some (2::nat), Expiration = 0\<rparr>], Some ''unexpected EOF'')
            else (Map.empty, None))
        ''truncated'' [''b'']
     = (Set (New 0 0 0) ''a'' (Some 1) 0 100, Some ''unexpected EOF'')"
  using Load_decode_error [of
      "\<lambda>r. if r = ''truncated''
            then ([''b'' \<mapsto> \<lparr>Object = Some (2::nat), Expiration = 0\<rparr>], Some ''unexpected EOF'')
            else (Map.empty, None)"
      "''truncated''" "''unexpected EOF''" "Set (New 0 0 0) ''a'' (Some 1) 0 100" "[''b'']"]
  by simp

text \<open>
  C3: when decoding succeeds, \<open>Load\<close> merges in any range order: the table becomes the
  old one overridden by the decoded one, so every decoded key maps to its decoded entry
  and every other key keeps the entry it had; the rest of the storage is unchanged.
\<close>

theorem Load_merges:
  assumes "Decode r = (decoded, None)" and "range_order decoded ks"
  shows "Load s Decode r ks = (s\<lparr>items := items s ++ decoded\<rparr>, None)
    \<and> (\<forall>k item. decoded k = Some item \<longrightarrow> items (fst (Load s Decode r ks)) k = Some item)
    \<and> (\<forall>k. decoded k = None \<longrightarrow> items (fst (Load s Decode r ks)) k = items s k)"
proof -
  have "Load_loop decoded ks (items s) = items s ++ decoded"
  proof
    fix k
    show "Load_loop decoded ks (items s) k = (items s ++ decoded) k"
      using assms(2) unfolding range_order_def Load_loop_lookup
      by (auto simp: map_add_def split: option.splits)
  qed
  then have "Load s Decode r ks = (s\<lparr>items := items s ++ decoded\<rparr>, None)"
    using assms(1) by (simp add: Load_def)
  then show ?thesis
    by (simp add: map_add_def)
qed

theorem Load_merges_witness:
  "decode_file ''db.dat'' = (saved_ab, None)
   \<and> range_order saved_ab [''b'', ''a'']
   \<and> Get running_abc ''a'' 30 = (Some 4, True)
   \<and> snd (Load running_abc decode_file ''db.dat'' [''b'', ''a'']) = None
   \<and> Get (fst (Load running_abc decode_file ''db.dat'' [''b'', ''a''])) ''a'' 30 = (Some 1, True)
   \<and> Get (fst (Load running_abc decode_file ''db.dat'' [''b'', ''a''])) ''b'' 30 = (Some 2, True)
   \<and> Get (fst (Load running_abc decode_file ''db.dat'' [''b'', ''a''])) ''c'' 30 = (Some 3, True)"
proof -
  have d: "decode_file ''db.dat'' = (saved_ab, None)"
    by (simp add: decode_file_def)
  have o: "range_order saved_ab [''b'', ''a'']"
    by (auto simp: range_order_def saved_ab_def)
  show ?thesis
    using Load_merges [of decode_file "''db.dat''" saved_ab "[''b'', ''a'']" running_abc, OF d o] d o
    by (simp add: Get_def running_abc_def saved_ab_def Set_def New_def newsWithJanitor_def
        newStorage_def DefaultExpiration_def NoExpiration_def)
qed

subsection \<open>Conditional insertion\<close>

lemma set_unlocked_eq_Set: "set_unlocked s key val dur now = Set s key val dur now"
  by (simp add: set_unlocked_def Set_def)

text \<open>
  C2, as the code has it: \<open>Add\<close> fails with the already-exists error exactly when the key
  is present in the table, whether or not its entry has expired. When it fails the
  storage is unchanged, so \<open>Get\<close> answers at every instant as it did before: the stored
  value while the entry has no positive expiration strictly before that instant, and
  not found once it has. When the key is absent \<open>Add\<close> does what \<open>Set\<close> does and returns
  no error.
\<close>

theorem Add_only_if_absent:
  "(snd (Add s key val dur now) = Some (''item '' @ key @ '' already exists'') \<longleftrightarrow> items s key \<noteq> None)
   \<and> (snd (Add s key val dur now) = None \<longleftrightarrow> items s key = None)
   \<and> (items s key \<noteq> None \<longrightarrow>
        fst (Add s key val dur now) = s
        \<and> (\<forall>t. Get (fst (Add s key val dur now)) key t = Get s key t))
   \<and> (\<forall>item t. items s key = Some item \<and> \<not> (0 <s Expiration item \<and> Expiration item <s t) \<longrightarrow>
        Get (fst (Add s key val dur now)) key t = (Object item, True))
   \<and> (\<forall>item t. items s key = Some item \<and> 0 <s Expiration item \<and> Expiration item <s t \<longrightarrow>
        Get (fst (Add s key val dur now)) key t = (None, False))
   \<and> (items s key = None \<longrightarrow> Add s key val dur now = (Set s key val dur now, None))"
  by (cases "items s key") (simp_all add: Add_def Get_def set_unlocked_eq_Set)

theorem Add_only_if_absent_witness:
  "items stale ''k'' = Some \<lparr>Object = Some 7, Expiration = 105\<rparr>
   \<and> Expired \<lparr>Object = Some (7::nat), Expiration = 105\<rparr> 200
   \<and> Add stale ''k'' (Some 8) 0 200 = (stale, Some ''item k already exists'')
   \<and> Get (fst (Add stale ''k'' (Some 8) 0 200)) ''k'' 200 = (None, False)
   \<and> Add stale ''k'' (Some 8) 0 104 = (stale, Some ''item k already exists'')
   \<and> Get (fst (Add stale ''k'' (Some 8) 0 104)) ''k'' 104 = (Some 7, True)
   \<and> items stale ''j'' = None
   \<and> Add stale ''j'' (Some 8) 3 200 = (Set stale ''j'' (Some 8) 3 200, None)
   \<and> items (Set stale ''j'' (Some 8) 3 200) ''j'' = Some \<lparr>Object = Some 8, Expiration = 203\<rparr>"
proof -
  have k: "items stale ''k'' = Some \<lparr>Object = Some 7, Expiration = 105\<rparr>"
    by (simp add: stale_items)
  have j: "items stale ''j'' = None"
    by (simp add: stale_items)
  have e: "Expired \<lparr>Object = Some (7::nat), Expiration = 105\<rparr> 200"
    by (simp add: Expired_def word_sless_alt)
  have l: "\<not> (0 <s Expiration \<lparr>Object = Some (7::nat), Expiration = 105\<rparr>
             \<and> Expiration \<lparr>Object = Some (7::nat), Expiration = 105\<rparr> <s 104)"
    by (simp add: word_sless_alt)
  have x: "0 <s Expiration \<lparr>Object = Some (7::nat), Expiration = 105\<rparr>
             \<and> Expiration \<lparr>Object = Some (7::nat), Expiration = 105\<rparr> <s 200"
    by (simp add: word_sless_alt)
  have n: "items (Set stale ''j'' (Some 8) 3 200) ''j'' = Some \<lparr>Object = Some 8, Expiration = 203\<rparr>"
    by (simp add: Set_def DefaultExpiration_def word_sless_alt)
  have u: "fst (Add stale ''k'' (Some 8) 0 200) = stale
      \<and> snd (Add stale ''k'' (Some 8) 0 200) = Some ''item k already exists''"
    using Add_only_if_absent [of stale "''k''" "Some 8" 0 200] k by simp
  have a: "Add stale ''k'' (Some 8) 0 200 = (stale, Some ''item k already exists'')"
    using u by (cases "Add stale ''k'' (Some 8) 0 200") simp
  have u': "fst (Add stale ''k'' (Some 8) 0 104) = stale
      \<and> snd (Add stale ''k'' (Some 8) 0 104) = Some ''item k already exists''"
    using Add_only_if_absent [of stale "''k''" "Some 8" 0 104] k by simp
  have a': "Add stale ''k'' (Some 8) 0 104 = (stale, Some ''item k already exists'')"
    using u' by (cases "Add stale ''k'' (Some 8) 0 104") simp
  have "\<forall>item t. items stale ''k'' = Some item \<and> \<not> (0 <s Expiration item \<and> Expiration item <s t) \<longrightarrow>
          Get (fst (Add stale ''k'' (Some 8) 0 104)) ''k'' t = (Object item, True)"
    using Add_only_if_absent [of stale "''k''" "Some 8" 0 104] by blast
  then have g: "Get (fst (Add stale ''k'' (Some 8) 0 104)) ''k'' 104 = (Some 7, True)"
    using k l by fastforce
  have "\<forall>item t. items stale ''k'' = Some item \<and> 0 <s Expiration item \<and> Expiration item <s t \<longrightarrow>
          Get (fst (Add stale ''k'' (Some 8) 0 200)) ''k'' t = (None, False)"
    using Add_only_if_absent [of stale "''k''" "Some 8" 0 200] by blast
  then have h: "Get (fst (Add stale ''k'' (Some 8) 0 200)) ''k'' 200 = (None, False)"
    using k x by fastforce
  have b: "Add stale ''j'' (Some 8) 3 200 = (Set stale ''j'' (Some 8) 3 200, None)"
    using Add_only_if_absent [of stale "''j''" "Some 8" 3 200] j by blast
  show ?thesis
    using k j e n a a' g h b by simp
qed

text \<open>
  The claim as it was stated fails on an entry that has expired: \<open>Add\<close> fails on its key
  and leaves the table as it was, the stored value is still in the table, and the
  following \<open>Get\<close> reports not found instead of returning it.
\<close>

theorem Add_expired_counterexample:
  "snd (Add stale ''k'' (Some 8) 0 200) = Some ''item k already exists''
   \<and> fst (Add stale ''k'' (Some 8) 0 200) = stale
   \<and> items (fst (Add stale ''k'' (Some 8) 0 200)) ''k'' = Some \<lparr>Object = Some 7, Expiration = 105\<rparr>
   \<and> Get (fst (Add stale ''k'' (Some 8) 0 200)) ''k'' 200 = (None, False)
   \<and> Get (fst (Add stale ''k'' (Some 8) 0 200)) ''k'' 200 \<noteq> (Some 7, True)"
  by (simp add: Add_def Get_def stale_items word_sless_alt)

subsection \<open>Lookup\<close>

text \<open>
  C1, as the code has it: \<open>Get\<close> reports not found exactly when the key is absent or its
  entry has a positive expiration that lies strictly before \<open>now\<close>. An entry whose
  expiration is zero or negative is always found, and so is one whose expiration equals
  \<open>now\<close>; a found entry comes with its stored value. For an entry whose expiration is not
  negative this is \<open>Expired\<close>. The answer depends on the entry of that key alone.
\<close>

theorem Get_found_iff:
  "(snd (Get s key now) = False \<longleftrightarrow>
      items s key = None
      \<or> (\<exists>item. items s key = Some item \<and> 0 <s Expiration item \<and> Expiration item <s now))
   \<and> (\<forall>item. items s key = Some item \<and> \<not> (0 <s Expiration item \<and> Expiration item <s now) \<longrightarrow>
        Get s key now = (Object item, True))
   \<and> (\<forall>item. items s key = Some item \<and> (Expiration item \<le>s 0 \<or> Expiration item = now) \<longrightarrow>
        Get s key now = (Object item, True))
   \<and> (\<forall>item. items s key = Some item \<and> 0 \<le>s Expiration item \<longrightarrow>
        (snd (Get s key now) = False \<longleftrightarrow> Expired item now))
   \<and> (\<forall>s' :: 'v Storage. items s' key = items s key \<longrightarrow> Get s' key now = Get s key now)"
proof (cases "items s key")
  case None
  then show ?thesis by (simp add: Get_def)
next
  case (Some item)
  have "Expiration item \<le>s 0 \<or> Expiration item = now
      \<Longrightarrow> \<not> (0 <s Expiration item \<and> Expiration item <s now)"
    by (auto simp: word_sless_alt word_sle_eq)
  moreover have "0 \<le>s Expiration item
      \<Longrightarrow> Expired item now \<longleftrightarrow> 0 <s Expiration item \<and> Expiration item <s now"
    by (rule Expired_nonneg)
  ultimately show ?thesis
    using Some by (auto simp: Get_def)
qed

theorem Get_found_iff_witness:
  "items stale ''k'' = Some \<lparr>Object = Some 7, Expiration = 105\<rparr>
   \<and> 0 \<le>s Expiration \<lparr>Object = Some (7::nat), Expiration = 105\<rparr>
   \<and> Expired \<lparr>Object = Some (7::nat), Expiration = 105\<rparr> 106
   \<and> snd (Get stale ''k'' 106) = False
   \<and> Get stale ''k'' 105 = (Some 7, True)
   \<and> items stale ''j'' = None
   \<and> snd (Get stale ''j'' 105) = False
   \<and> items (Set stale ''j'' (Some 8) 1 100) ''k'' = items stale ''k''
   \<and> Get (Set stale ''j'' (Some 8) 1 100) ''k'' 105 = (Some 7, True)"
proof -
  have k: "items stale ''k'' = Some \<lparr>Object = Some 7, Expiration = 105\<rparr>"
    by (simp add: stale_items)
  have j: "items stale ''j'' = None"
    by (simp add: stale_items)
  have p: "0 \<le>s Expiration \<lparr>Object = Some (7::nat), Expiration = 105\<rparr>"
    by (simp add: word_sle_eq)
  have e: "Expired \<lparr>Object = Some (7::nat), Expiration = 105\<rparr> 106"
    by (simp add: Expired_def word_sless_alt)
  have n: "items (Set stale ''j'' (Some 8) 1 100) ''k'' = items stale ''k''"
    by (simp add: Set_def Let_def)
  have "\<forall>item. items stale ''k'' = Some item \<and> 0 \<le>s Expiration item \<longrightarrow>
          (snd (Get stale ''k'' 106) = False \<longleftrightarrow> Expired item 106)"
    using Get_found_iff [of stale "''k''" 106] by blast
  then have a: "snd (Get stale ''k'' 106) = False"
    using k p e by fastforce
  have "\<forall>item. items stale ''k'' = Some item \<and> (Expiration item \<le>s 0 \<or> Expiration item = 105) \<longrightarrow>
          Get stale ''k'' 105 = (Object item, True)"
    using Get_found_iff [of stale "''k''" 105] by blast
  then have b: "Get stale ''k'' 105 = (Some 7, True)"
    using k by fastforce
  have c: "snd (Get stale ''j'' 105) = False"
    using Get_found_iff [of stale "''j''" 105] j by blast
  have "\<forall>s' :: nat Storage. items s' ''k'' = items stale ''k'' \<longrightarrow> Get s' ''k'' 105 = Get stale ''k'' 105"
    using Get_found_iff [of stale "''k''" 105] by blast
  then have d: "Get (Set stale ''j'' (Some 8) 1 100) ''k'' 105 = (Some 7, True)"
    using n b by fastforce
  show ?thesis
    using k j p e n a b c d by simp
qed

text \<open>
  The claim as it was stated fails on an entry with a negative expiration: \<open>Expired\<close>
  holds of it, and \<open>Get\<close> finds it.
\<close>

theorem Get_wrapped_counterexample:
  "items wrapped ''k'' = Some \<lparr>Object = Some 1, Expiration = 11016776836854775807\<rparr>
   \<and> sint (11016776836854775807 :: int64) = - 7429967236854775809
   \<and> Expired \<lparr>Object = Some (1::nat), Expiration = 11016776836854775807\<rparr> 1793404800000000001
   \<and> Get wrapped ''k'' 1793404800000000001 = (Some 1, True)"
  by (simp add: wrapped_items Get_def Expired_def word_sless_alt)

subsection \<open>Snapshot\<close>

text \<open>
  C5, as the code has it: in any range order, \<open>Items\<close> returns exactly the entries of the
  table that do not have a positive expiration strictly before \<open>now\<close>, each unchanged.
  Entries whose expiration is zero or negative are always included. On a table without
  negative expirations the result is exactly the entries that are not \<open>Expired\<close>. The
  result is a new map; \<open>Items\<close> returns no storage, so the table stays as it was.
\<close>

theorem Items_snapshot:
  assumes "range_order (items s) ks"
  shows "(\<forall>k v. Items s now ks k = Some v \<longleftrightarrow>
            items s k = Some v \<and> \<not> (0 <s Expiration v \<and> Expiration v <s now))
    \<and> (\<forall>k v. items s k = Some v \<and> Expiration v \<le>s 0 \<longrightarrow> Items s now ks k = Some v)
    \<and> ((\<forall>k v. items s k = Some v \<longrightarrow> 0 \<le>s Expiration v) \<longrightarrow>
          (\<forall>k v. Items s now ks k = Some v \<longleftrightarrow> items s k = Some v \<and> \<not> Expired v now))"
proof -
  have 1: "\<forall>k v. Items s now ks k = Some v \<longleftrightarrow>
            items s k = Some v \<and> \<not> (0 <s Expiration v \<and> Expiration v <s now)"
    by (auto simp: Items_lookup [OF assms] split: option.splits if_splits)
  have 2: "\<forall>k v. items s k = Some v \<and> Expiration v \<le>s 0 \<longrightarrow> Items s now ks k = Some v"
    by (auto simp: Items_lookup [OF assms] word_sless_alt word_sle_eq)
  have 3: "(\<forall>k v. items s k = Some v \<longrightarrow> 0 \<le>s Expiration v) \<longrightarrow>
          (\<forall>k v. Items s now ks k = Some v \<longleftrightarrow> items s k = Some v \<and> \<not> Expired v now)"
    using 1 Expired_nonneg by blast
  show ?thesis
    using 1 2 3 by blast
qed

theorem Items_snapshot_witness:
  "range_order (items mixed) [''live'', ''forever'', ''dead'']
   \<and> items mixed ''dead'' = Some \<lparr>Object = Some 1, Expiration = 50\<rparr>
   \<and> Expired \<lparr>Object = Some (1::nat), Expiration = 50\<rparr> 100
   \<and> Items mixed 100 [''live'', ''forever'', ''dead''] ''dead'' = None
   \<and> Items mixed 100 [''live'', ''forever'', ''dead''] ''live''
       = Some \<lparr>Object = Some 2, Expiration = 200\<rparr>
   \<and> Items mixed 100 [''live'', ''forever'', ''dead''] ''forever''
       = Some \<lparr>Object = Some 3, Expiration = 0\<rparr>"
proof -
  note t = Items_snapshot [OF mixed_range, of 100]
  have d: "items mixed ''dead'' = Some \<lparr>Object = Some 1, Expiration = 50\<rparr>"
    and l: "items mixed ''live'' = Some \<lparr>Object = Some 2, Expiration = 200\<rparr>"
    and f: "items mixed ''forever'' = Some \<lparr>Object = Some 3, Expiration = 0\<rparr>"
    by (simp_all add: mixed_items)
  have e: "Expired \<lparr>Object = Some (1::nat), Expiration = 50\<rparr> 100"
    and nl: "\<not> Expired \<lparr>Object = Some (2::nat), Expiration = 200\<rparr> 100"
    and nf: "\<not> Expired \<lparr>Object = Some (3::nat), Expiration = 0\<rparr> 100"
    by (simp_all add: Expired_def word_sless_alt)
  have a: "\<forall>k v. Items mixed 100 [''live'', ''forever'', ''dead''] k = Some v \<longleftrightarrow>
             items mixed k = Some v \<and> \<not> Expired v 100"
    using t mixed_nonneg by blast
  have 1: "Items mixed 100 [''live'', ''forever'', ''dead''] ''dead'' = None"
  proof (cases "Items mixed 100 [''live'', ''forever'', ''dead''] ''dead''")
    case (Some v)
    then show ?thesis using a d e by auto
  qed simp
  have 2: "Items mixed 100 [''live'', ''forever'', ''dead''] ''live''
       = Some \<lparr>Object = Some 2, Expiration = 200\<rparr>"
    using a l nl by blast
  have 3: "Items mixed 100 [''live'', ''forever'', ''dead''] ''forever''
       = Some \<lparr>Object = Some 3, Expiration = 0\<rparr>"
    using a f nf by blast
  show ?thesis
    using mixed_range d e 1 2 3 by blast
qed

text \<open>
  The claim as it was stated fails on an entry with a negative expiration: its instant
  has passed, \<open>Expired\<close> holds of it, and \<open>Items\<close> includes it.
\<close>

theorem Items_wrapped_counterexample:
  "range_order (items wrapped) [''k'']
   \<and> items wrapped ''k'' = Some \<lparr>Object = Some 1, Expiration = 11016776836854775807\<rparr>
   \<and> sint (11016776836854775807 :: int64) < sint (1793404800000000001 :: int64)
   \<and> Expired \<lparr>Object = Some (1::nat), Expiration = 11016776836854775807\<rparr> 1793404800000000001
   \<and> Items wrapped 1793404800000000001 [''k''] ''k''
       = Some \<lparr>Object = Some 1, Expiration = 11016776836854775807\<rparr>"
  by (simp add: wrapped_items range_order_def Items_def Expired_def word_sless_alt)

subsection \<open>Sweep\<close>

text \<open>
  C6, as the code has it: in any range order, \<open>DeleteExpired\<close> removes exactly the entries
  that have a positive expiration strictly before the instant \<open>now\<close> read once before the
  scan, and leaves every other entry, and the rest of the storage, unchanged. Entries
  whose expiration is zero or negative are never removed. On a table without negative
  expirations the removed entries are exactly the \<open>Expired\<close> ones.
\<close>

theorem DeleteExpired_exact:
  assumes "range_order (items s) ks"
  shows "(\<forall>k v. items s k = Some v \<and> 0 <s Expiration v \<and> Expiration v <s now \<longrightarrow>
            items (DeleteExpired s now ks) k = None)
    \<and> (\<forall>k. \<not> (\<exists>v. items s k = Some v \<and> 0 <s Expiration v \<and> Expiration v <s now) \<longrightarrow>
            items (DeleteExpired s now ks) k = items s k)
    \<and> (\<forall>k v. items s k = Some v \<and> Expiration v \<le>s 0 \<longrightarrow>
            items (DeleteExpired s now ks) k = Some v)
    \<and> ((\<forall>k v. items s k = Some v \<longrightarrow> 0 \<le>s Expiration v) \<longrightarrow>
          (\<forall>k v. items s k = Some v \<longrightarrow>
             (if Expired v now then items (DeleteExpired s now ks) k = None
              else items (DeleteExpired s now ks) k = Some v)))
    \<and> DeleteExpired s now ks = s\<lparr>items := items (DeleteExpired s now ks)\<rparr>"
proof -
  have 1: "\<forall>k v. items s k = Some v \<and> 0 <s Expiration v \<and> Expiration v <s now \<longrightarrow>
            items (DeleteExpired s now ks) k = None"
    by (simp add: DeleteExpired_lookup [OF assms])
  have 2: "\<forall>k. \<not> (\<exists>v. items s k = Some v \<and> 0 <s Expiration v \<and> Expiration v <s now) \<longrightarrow>
            items (DeleteExpired s now ks) k = items s k"
    by (auto simp: DeleteExpired_lookup [OF assms] split: option.splits)
  have 3: "\<forall>k v. items s k = Some v \<and> Expiration v \<le>s 0 \<longrightarrow>
            items (DeleteExpired s now ks) k = Some v"
    by (auto simp: DeleteExpired_lookup [OF assms] word_sless_alt word_sle_eq)
  have 4: "(\<forall>k v. items s k = Some v \<longrightarrow> 0 \<le>s Expiration v) \<longrightarrow>
          (\<forall>k v. items s k = Some v \<longrightarrow>
             (if Expired v now then items (DeleteExpired s now ks) k = None
              else items (DeleteExpired s now ks) k = Some v))"
    by (auto simp: DeleteExpired_lookup [OF assms] Expired_nonneg)
  have 5: "DeleteExpired s now ks = s\<lparr>items := items (DeleteExpired s now ks)\<rparr>"
    by (simp add: DeleteExpired_def)
  show ?thesis
    using 1 2 3 4 5 by blast
qed

theorem DeleteExpired_exact_witness:
  "range_order (items mixed) [''dead'', ''forever'', ''live'']
   \<and> items mixed ''dead'' = Some \<lparr>Object = Some 1, Expiration = 50\<rparr>
   \<and> Expired \<lparr>Object = Some (1::nat), Expiration = 50\<rparr> 100
   \<and> items (DeleteExpired mixed 100 [''dead'', ''forever'', ''live'']) ''dead'' = None
   \<and> items (DeleteExpired mixed 100 [''dead'', ''forever'', ''live'']) ''live''
       = Some \<lparr>Object = Some 2, Expiration = 200\<rparr>
   \<and> items (DeleteExpired mixed 100 [''dead'', ''forever'', ''live'']) ''forever''
       = Some \<lparr>Object = Some 3, Expiration = 0\<rparr>
   \<and> items (DeleteExpired mixed 100 [''dead'', ''forever'', ''live'']) ''other'' = None"
proof -
  have r: "range_order (items mixed) [''dead'', ''forever'', ''live'']"
    by (auto simp: range_order_def mixed_items split: if_splits)
  note t = DeleteExpired_exact [OF r, of 100]
  have d: "items mixed ''dead'' = Some \<lparr>Object = Some 1, Expiration = 50\<rparr>"
    and l: "items mixed ''live'' = Some \<lparr>Object = Some 2, Expiration = 200\<rparr>"
    and f: "items mixed ''forever'' = Some \<lparr>Object = Some 3, Expiration = 0\<rparr>"
    and o: "items mixed ''other'' = None"
    by (simp_all add: mixed_items)
  have e: "Expired \<lparr>Object = Some (1::nat), Expiration = 50\<rparr> 100"
    and nl: "\<not> Expired \<lparr>Object = Some (2::nat), Expiration = 200\<rparr> 100"
    and nf: "\<not> Expired \<lparr>Object = Some (3::nat), Expiration = 0\<rparr> 100"
    by (simp_all add: Expired_def word_sless_alt)
  have a: "\<forall>k v. items mixed k = Some v \<longrightarrow>
             (if Expired v 100 then items (DeleteExpired mixed 100 [''dead'', ''forever'', ''live'']) k = None
              else items (DeleteExpired mixed 100 [''dead'', ''forever'', ''live'']) k = Some v)"
    using t mixed_nonneg by blast
  have 1: "items (DeleteExpired mixed 100 [''dead'', ''forever'', ''live'']) ''dead'' = None"
    using a d e by fastforce
  have 2: "items (DeleteExpired mixed 100 [''dead'', ''forever'', ''live'']) ''live''
       = Some \<lparr>Object = Some 2, Expiration = 200\<rparr>"
    using a l nl by fastforce
  have 3: "items (DeleteExpired mixed 100 [''dead'', ''forever'', ''live'']) ''forever''
       = Some \<lparr>Object = Some 3, Expiration = 0\<rparr>"
    using a f nf by fastforce
  have 4: "items (DeleteExpired mixed 100 [''dead'', ''forever'', ''live'']) ''other'' = None"
    using t o by fastforce
  show ?thesis
    using r d e 1 2 3 4 by blast
qed

text \<open>
  The claim as it was stated fails on an entry with a negative expiration: it is not the
  never-expire sentinel, its instant lies strictly before \<open>now\<close>, and the sweep keeps it.
\<close>

theorem DeleteExpired_wrapped_counterexample:
  "range_order (items wrapped) [''k'']
   \<and> items wrapped ''k'' = Some \<lparr>Object = Some 1, Expiration = 11016776836854775807\<rparr>
   \<and> (11016776836854775807 :: int64) \<noteq> 0
   \<and> (11016776836854775807 :: int64) <s 1793404800000000001
   \<and> items (DeleteExpired wrapped 1793404800000000001 [''k'']) ''k''
       = Some \<lparr>Object = Some 1, Expiration = 11016776836854775807\<rparr>"
  by (simp add: wrapped_items range_order_def DeleteExpired_def word_sless_alt)

subsection \<open>Default expiration\<close>

lemma defaultExpiration_kept:
  "defaultExpiration (Set s key val dur now) = defaultExpiration s"
  "defaultExpiration (fst (Add s key val dur now)) = defaultExpiration s"
  "defaultExpiration (fst (Delete s key)) = defaultExpiration s"
  "defaultExpiration (DeleteExpired s now ks) = defaultExpiration s"
  "defaultExpiration (fst (Load s Decode r ks)) = defaultExpiration s"
  by (simp_all add: Set_def Add_def set_unlocked_def Delete_def DeleteExpired_def Load_def Let_def
      split: option.splits prod.splits)

text \<open>
  C10: a storage constructed with default expiration 0 has \<open>NoExpiration\<close> as its default.
  On a storage with that default, \<open>Set\<close> and \<open>Add\<close> with the default duration store the
  expiration 0. In general \<open>Set\<close> stores the expiration 0 whenever the effective duration
  is not positive, and an entry with expiration 0 is found at every instant.
\<close>

theorem zero_default_never_expires:
  "defaultExpiration (newStorage 0 m) = NoExpiration
   \<and> defaultExpiration (New 0 ci n :: 'v Storage) = NoExpiration
   \<and> (defaultExpiration s = NoExpiration \<longrightarrow>
        Set s key val DefaultExpiration now
          = s\<lparr>items := (items s)(key \<mapsto> \<lparr>Object = val, Expiration = 0\<rparr>)\<rparr>)
   \<and> (defaultExpiration s = NoExpiration \<and> items s key = None \<longrightarrow>
        Add s key val DefaultExpiration now
          = (s\<lparr>items := (items s)(key \<mapsto> \<lparr>Object = val, Expiration = 0\<rparr>)\<rparr>, None))
   \<and> (\<not> 0 <s (if dur = DefaultExpiration then defaultExpiration s else dur) \<longrightarrow>
        Set s key val dur now
          = s\<lparr>items := (items s)(key \<mapsto> \<lparr>Object = val, Expiration = 0\<rparr>)\<rparr>)
   \<and> (\<forall>t. Get (s\<lparr>items := (items s)(key \<mapsto> \<lparr>Object = val, Expiration = 0\<rparr>)\<rparr>) key t = (val, True))"
  by (simp add: newStorage_def New_def newsWithJanitor_def runJanitor_def Set_def Add_def
      set_unlocked_def Get_def NoExpiration_def DefaultExpiration_def Let_def)

theorem zero_default_never_expires_witness:
  "defaultExpiration (New 0 0 0 :: nat Storage) = NoExpiration
   \<and> items (New 0 0 0 :: nat Storage) ''k'' = None
   \<and> Add (New 0 0 0) ''k'' (Some (7::nat)) DefaultExpiration 100
       = ((New 0 0 0)\<lparr>items := (items (New 0 0 0))(''k'' \<mapsto> \<lparr>Object = Some 7, Expiration = 0\<rparr>)\<rparr>, None)
   \<and> Set (New 0 0 0) ''k'' (Some (7::nat)) DefaultExpiration 100
       = (New 0 0 0)\<lparr>items := (items (New 0 0 0))(''k'' \<mapsto> \<lparr>Object = Some 7, Expiration = 0\<rparr>)\<rparr>
   \<and> \<not> 0 <s (if (- 30 :: duration) = DefaultExpiration then defaultExpiration stale else - 30)
   \<and> Set stale ''k'' (Some 9) (- 30) 100
       = stale\<lparr>items := (items stale)(''k'' \<mapsto> \<lparr>Object = Some 9, Expiration = 0\<rparr>)\<rparr>
   \<and> Get (Set stale ''k'' (Some 9) (- 30) 100) ''k'' 9223372036854775807 = (Some 9, True)"
proof -
  have d: "defaultExpiration (New 0 0 0 :: nat Storage) = NoExpiration"
    using zero_default_never_expires [where ?'v = nat, of _ 0 0] by blast
  have i: "items (New 0 0 0 :: nat Storage) ''k'' = None"
    by (simp add: New_def newsWithJanitor_def newStorage_def)
  have n: "\<not> 0 <s (if (- 30 :: duration) = DefaultExpiration then defaultExpiration stale else - 30)"
    by (simp add: DefaultExpiration_def word_sless_alt)
  have a: "Add (New 0 0 0) ''k'' (Some (7::nat)) DefaultExpiration 100
       = ((New 0 0 0)\<lparr>items := (items (New 0 0 0))(''k'' \<mapsto> \<lparr>Object = Some 7, Expiration = 0\<rparr>)\<rparr>, None)"
    using zero_default_never_expires [of _ _ _ "New 0 0 0 :: nat Storage" "''k''" "Some 7" 100] d i
    by blast
  have b: "Set (New 0 0 0) ''k'' (Some (7::nat)) DefaultExpiration 100
       = (New 0 0 0)\<lparr>items := (items (New 0 0 0))(''k'' \<mapsto> \<lparr>Object = Some 7, Expiration = 0\<rparr>)\<rparr>"
    using zero_default_never_expires [of _ _ _ "New 0 0 0 :: nat Storage" "''k''" "Some 7" 100] d
    by blast
  have c: "Set stale ''k'' (Some 9) (- 30) 100
       = stale\<lparr>items := (items stale)(''k'' \<mapsto> \<lparr>Object = Some 9, Expiration = 0\<rparr>)\<rparr>"
    using zero_default_never_expires [of _ _ _ stale "''k''" "Some 9" 100 "- 30"] n
    by blast
  have g: "Get (stale\<lparr>items := (items stale)(''k'' \<mapsto> \<lparr>Object = Some 9, Expiration = 0\<rparr>)\<rparr>) ''k''
            9223372036854775807 = (Some 9, True)"
    using zero_default_never_expires [of _ _ _ stale "''k''" "Some 9" 100 "- 30"]
    by blast
  show ?thesis
    using d i n a b c g by simp
qed

subsection \<open>Counting\<close>

lemma dom_Items:
  assumes "range_order (items s) ks"
  shows "dom (Items s now ks)
    = dom (items s) - {k. \<exists>v. items s k = Some v \<and> 0 <s Expiration v \<and> Expiration v <s now}"
  by (auto simp: Items_lookup [OF assms] split: option.splits if_splits)

lemma dom_DeleteExpired:
  assumes "range_order (items s) ks"
  shows "dom (items (DeleteExpired s now ks))
    = dom (items s) - {k. \<exists>v. items s k = Some v \<and> 0 <s Expiration v \<and> Expiration v <s now}"
  by (auto simp: DeleteExpired_lookup [OF assms] split: option.splits if_splits)

lemma dom_Load_loop:
  "dom (Load_loop decoded ks m) = dom m \<union> {k \<in> set ks. decoded k \<noteq> None}"
  by (auto simp: Load_loop_lookup dom_def split: if_splits)

lemma ItemCount_Load:
  assumes "finite (dom (items s))"
  shows "ItemCount s \<le> ItemCount (fst (Load s Decode r ks))"
proof (cases "Decode r")
  case (Pair decoded err)
  show ?thesis
  proof (cases err)
    case None
    have "finite (dom (items s) \<union> {k \<in> set ks. decoded k \<noteq> None})"
      using assms by simp
    then have "card (dom (items s)) \<le> card (dom (items s) \<union> {k \<in> set ks. decoded k \<noteq> None})"
      by (intro card_mono) auto
    then show ?thesis
      using Pair None by (simp add: Load_def ItemCount_def dom_Load_loop)
  next
    case (Some e)
    then show ?thesis using Pair by (simp add: Load_def)
  qed
qed

lemma ItemCount_Set:
  assumes "finite (dom (items s))"
  shows "ItemCount s \<le> ItemCount (Set s key val dur t)"
  using assms by (simp add: Set_def ItemCount_def Let_def card_insert_le)

lemma mixed_expired_keys:
  "{k. \<exists>v. items mixed k = Some v \<and> 0 <s Expiration v \<and> Expiration v <s 100} = {''dead''}"
  by (auto simp: mixed_items word_sless_alt split: if_splits)

text \<open>
  C7: \<open>ItemCount\<close> is the number of keys of the table, which is the number of entries a
  range loop reaches: the entries \<open>Items\<close> returns at any instant plus the entries it
  leaves out as expired. It reads no clock. \<open>DeleteExpired\<close> lowers it by the number of
  entries it removes, \<open>Delete\<close> lowers it by one when the key is present and leaves it
  otherwise, and \<open>Set\<close>, \<open>Add\<close> and \<open>Load\<close> never lower it; \<open>Get\<close> and \<open>Items\<close> return no
  storage.
\<close>

theorem ItemCount_raw:
  assumes "range_order (items s) ks"
  shows "ItemCount s = length ks
    \<and> ItemCount s = card (dom (Items s now ks))
        + card {k. \<exists>v. items s k = Some v \<and> 0 <s Expiration v \<and> Expiration v <s now}
    \<and> ItemCount (DeleteExpired s now ks) = ItemCount s
        - card {k. \<exists>v. items s k = Some v \<and> 0 <s Expiration v \<and> Expiration v <s now}
    \<and> ItemCount (fst (Delete s key)) = (if items s key = None then ItemCount s else ItemCount s - 1)
    \<and> ItemCount s \<le> ItemCount (Set s key val dur t)
    \<and> ItemCount s \<le> ItemCount (fst (Add s key val dur t))
    \<and> ItemCount s \<le> ItemCount (fst (Load s Decode r ks'))"
proof -
  let ?E = "{k. \<exists>v. items s k = Some v \<and> 0 <s Expiration v \<and> Expiration v <s now}"
  have fin: "finite (dom (items s))"
    using assms by (rule range_order_finite)
  have sub: "?E \<subseteq> dom (items s)"
    by auto
  then have finE: "finite ?E"
    using fin by (rule finite_subset)
  have le: "card ?E \<le> card (dom (items s))"
    using sub fin by (simp add: card_mono)
  have diff: "card (dom (items s) - ?E) = card (dom (items s)) - card ?E"
    using finE sub by (rule card_Diff_subset)
  have 0: "ItemCount s = length ks"
    using assms by (metis ItemCount_def distinct_card range_order_def)
  have 1: "ItemCount s = card (dom (Items s now ks)) + card ?E"
    using le diff by (simp add: dom_Items [OF assms] ItemCount_def)
  have 2: "ItemCount (DeleteExpired s now ks) = ItemCount s - card ?E"
    using diff by (simp add: dom_DeleteExpired [OF assms] ItemCount_def)
  have 3: "ItemCount (fst (Delete s key)) = (if items s key = None then ItemCount s else ItemCount s - 1)"
    using fin by (cases "items s key") (auto simp: Delete_def ItemCount_def card_Diff_singleton_if)
  have 4: "ItemCount s \<le> ItemCount (Set s key val dur t)"
    using fin by (rule ItemCount_Set)
  have 5: "ItemCount s \<le> ItemCount (fst (Add s key val dur t))"
    using 4 by (cases "items s key") (simp_all add: Add_def set_unlocked_eq_Set)
  have 6: "ItemCount s \<le> ItemCount (fst (Load s Decode r ks'))"
    using fin by (rule ItemCount_Load)
  show ?thesis
    using 0 1 2 3 4 5 6 by blast
qed

theorem ItemCount_raw_witness:
  "range_order (items mixed) [''live'', ''forever'', ''dead'']
   \<and> ItemCount mixed = 3
   \<and> Get mixed ''dead'' 100 = (None, False)
   \<and> card (dom (Items mixed 100 [''live'', ''forever'', ''dead''])) = 2
   \<and> ItemCount (DeleteExpired mixed 100 [''live'', ''forever'', ''dead'']) = 2
   \<and> ItemCount (fst (Delete mixed ''live'')) = 2
   \<and> ItemCount (fst (Delete mixed ''other'')) = 3"
proof -
  note t = ItemCount_raw [OF mixed_range, of 100 "''live''" None 0 0 decode_file "''db.dat''" "[]"]
  note u = ItemCount_raw [OF mixed_range, of 100 "''other''" None 0 0 decode_file "''db.dat''" "[]"]
  have n: "ItemCount mixed = 3"
    using t by simp
  have g: "Get mixed ''dead'' 100 = (None, False)"
    by (simp add: Get_def mixed_items word_sless_alt)
  have i: "card (dom (Items mixed 100 [''live'', ''forever'', ''dead''])) = 2"
    using t n by (simp add: mixed_expired_keys)
  have d: "ItemCount (DeleteExpired mixed 100 [''live'', ''forever'', ''dead'']) = 2"
    using t n by (simp add: mixed_expired_keys)
  have l: "ItemCount (fst (Delete mixed ''live'')) = 2"
    using t n by (simp add: mixed_items)
  have o: "ItemCount (fst (Delete mixed ''other'')) = 3"
    using u n by (simp add: mixed_items)
  show ?thesis
    using mixed_range n g i d l o by blast
qed

end
